theory Spec2Isabelle
  imports Main
begin

section \<open>Strings\<close>

text \<open>
  The formatter of \<^verbatim>\<open>src/tensor_format.ts\<close> builds ASCII text, so a JavaScript string is a
  \<^typ>\<open>string\<close> here and \<^verbatim>\<open>s.length\<close> is \<^const>\<open>length\<close>.
\<close>

definition newline :: char where
  "newline = CHR 0x0A"

text \<open>\<^verbatim>\<open>Array.prototype.join\<close>: the separator between the entries, nothing around them.\<close>

fun join :: "string \<Rightarrow> string list \<Rightarrow> string" where
  "join sep [] = []"
| "join sep [x] = x"
| "join sep (x # y # ys) = x @ sep @ join sep (y # ys)"

definition digitChar :: "int \<Rightarrow> char" where
  "digitChar d = ''0123456789'' ! nat d"

definition isDigit :: "char \<Rightarrow> bool" where
  "isDigit c = (c \<in> set ''0123456789'')"

text \<open>The value of a digit is its place in the row of digits.\<close>

definition digitVal :: "char \<Rightarrow> int" where
  "digitVal c = int (length (takeWhile (\<lambda>d. d \<noteq> c) ''0123456789''))"

text \<open>The decimal digits of a non-negative integer, \<^verbatim>\<open>"0"\<close> for zero.\<close>

function showDigits :: "int \<Rightarrow> string" where
  "showDigits n = (if n < 10 then [digitChar n] else showDigits (n div 10) @ [digitChar (n mod 10)])"
  by pat_completeness auto
termination
  by (relation "measure nat") auto

declare showDigits.simps [simp del]

definition readDigits :: "string \<Rightarrow> int" where
  "readDigits ds = foldl (\<lambda>a c. 10 * a + digitVal c) 0 ds"

section \<open>JavaScript numbers\<close>

text \<open>
  The buffer is a typed array (\<^verbatim>\<open>Float32Array\<close>, \<^verbatim>\<open>Int32Array\<close>, \<^verbatim>\<open>Uint8Array\<close>); reading
  it gives a JavaScript Number, an IEEE 754 double. A finite double is a sign, a mantissa
  \<open>m\<close> and a binary exponent \<open>e\<close>, of value \<open>m * 2 ^ e\<close>; for a real double \<open>m < 2 ^ 53\<close> and
  \<open>- 1074 \<le> e \<le> 971\<close>. Negative zero is \<open>Finite True 0 e\<close>.

  The formatter calls three built-ins of the language on numbers:
  \<^verbatim>\<open>Number.prototype.toFixed\<close>, \<^verbatim>\<open>parseFloat\<close> and \<^verbatim>\<open>Number.prototype.toString\<close>. They are
  modelled after ECMA-262, on exact integer arithmetic: a magnitude \<open>m * 2 ^ e\<close> is the
  fraction \<open>numer m e / denom e\<close>.
\<close>

datatype number = NaN | Infinity bool | Finite bool int int

definition ofInt :: "int \<Rightarrow> number" where
  "ofInt i = Finite (i < 0) \<bar>i\<bar> 0"

definition numer :: "int \<Rightarrow> int \<Rightarrow> int" where
  "numer m e = (if 0 \<le> e then m * 2 ^ nat e else m)"

definition denom :: "int \<Rightarrow> int" where
  "denom e = (if 0 \<le> e then 1 else 2 ^ nat (- e))"

text \<open>The number of binary digits of a positive integer.\<close>

function bitlen :: "int \<Rightarrow> int" where
  "bitlen n = (if n \<le> 0 then 0 else 1 + bitlen (n div 2))"
  by pat_completeness auto
termination
  by (relation "measure nat") auto

declare bitlen.simps [simp del]

text \<open>
  Rounding a positive fraction \<open>p / q\<close> to the nearest double, ties to the even mantissa
  (the Number value for a mathematical value). \<open>L\<close> is the binary exponent of the
  fraction, \<open>2 ^ L \<le> p / q < 2 ^ (L + 1)\<close>; the mantissa has 53 bits, fewer below the
  smallest normal number.
\<close>

definition roundToDouble :: "bool \<Rightarrow> int \<Rightarrow> int \<Rightarrow> number" where
  "roundToDouble neg p q =
     (let d = bitlen p - bitlen q;
          L = (if (if 0 \<le> d then q * 2 ^ nat d \<le> p else q \<le> p * 2 ^ nat (- d)) then d else d - 1);
          e = max (L - 52) (- 1074);
          num = (if 0 \<le> e then p else p * 2 ^ nat (- e));
          den = (if 0 \<le> e then q * 2 ^ nat e else q);
          m0 = num div den;
          r = num mod den;
          m = (if den < 2 * r \<or> (den = 2 * r \<and> odd m0) then m0 + 1 else m0);
          m' = (if m = 2 ^ 53 then 2 ^ 52 else m);
          e' = (if m = 2 ^ 53 then e + 1 else e)
      in if 971 < e' then Infinity neg else Finite neg m' e')"

text \<open>Two finite magnitudes are the same number: \<open>m1 * 2 ^ e1 = m2 * 2 ^ e2\<close>.\<close>

definition sameMagnitude :: "number \<Rightarrow> int \<Rightarrow> int \<Rightarrow> bool" where
  "sameMagnitude x m e =
     (case x of Finite _ m' e' \<Rightarrow> numer m' e' * denom e = numer m e * denom e' | _ \<Rightarrow> False)"

subsection \<open>Number to string\<close>

text \<open>
  \<^verbatim>\<open>Number::toString\<close> (radix 10) prints the shortest decimal \<open>s * 10 ^ (n - k)\<close>, \<open>s\<close> of
  \<open>k\<close> digits, that reads back as the same double; of several such \<open>s\<close>, the one closest
  to the number. \<open>decimalExponent p q\<close> is the \<open>n\<close> with \<open>10 ^ (n - 1) \<le> p / q < 10 ^ n\<close>.
\<close>

function leadingZeros :: "int \<Rightarrow> int \<Rightarrow> int" where
  "leadingZeros p q = (if p \<le> 0 \<or> q \<le> p * 10 then 1 else 1 + leadingZeros (p * 10) q)"
  by pat_completeness auto
termination
  by (relation "measure (\<lambda>(p, q). nat (q - p))") auto

declare leadingZeros.simps [simp del]

definition decimalExponent :: "int \<Rightarrow> int \<Rightarrow> int" where
  "decimalExponent p q =
     (if q \<le> p then int (length (showDigits (p div q))) else 1 - leadingZeros p q)"

text \<open>
  The \<open>k\<close>-digit candidates next to \<open>m * 2 ^ e\<close> are the decimal below it and the one
  above; \<open>candidate\<close> returns the closer of those that read back as the number (the even
  one on a tie), as the pair \<open>(s, n)\<close>.
\<close>

definition readsBack :: "int \<Rightarrow> int \<Rightarrow> int \<Rightarrow> int \<Rightarrow> bool" where
  "readsBack s t m e =
     (0 < s \<and> sameMagnitude
        (if 0 \<le> t then roundToDouble False (s * 10 ^ nat t) 1
         else roundToDouble False s (10 ^ nat (- t))) m e)"

definition candidate :: "int \<Rightarrow> int \<Rightarrow> int \<Rightarrow> int \<Rightarrow> (int \<times> int) option" where
  "candidate k n0 m e =
     (let p = numer m e; q = denom e; t = n0 - k;
          num = (if 0 \<le> t then p else p * 10 ^ nat (- t));
          den = (if 0 \<le> t then q * 10 ^ nat t else q);
          lo = num div den;
          r = num mod den;
          hi = lo + 1;
          okLo = readsBack lo t m e;
          okHi = readsBack hi t m e;
          useHi = (okHi \<and> (\<not> okLo \<or> den < 2 * r \<or> (den = 2 * r \<and> odd lo)))
      in if useHi then (if hi = 10 ^ nat k then Some (10 ^ nat (k - 1), n0 + 1) else Some (hi, n0))
         else if okLo then Some (lo, n0)
         else None)"

fun shortestFrom :: "nat \<Rightarrow> int \<Rightarrow> int \<Rightarrow> int \<Rightarrow> int \<Rightarrow> int \<times> int" where
  "shortestFrom 0 k n0 m e = (numer m e * 10 ^ nat (k - n0) div denom e, n0)"
| "shortestFrom (Suc fuel) k n0 m e =
     (case candidate k n0 m e of
        Some sn \<Rightarrow> sn
      | None \<Rightarrow> shortestFrom fuel (k + 1) n0 m e)"

text \<open>Seventeen digits always identify a double, so the search ends within its fuel.\<close>

definition shortestDecimal :: "int \<Rightarrow> int \<Rightarrow> int \<times> int" where
  "shortestDecimal m e =
     shortestFrom (Suc (Suc (Suc (Suc (Suc (Suc (Suc (Suc (Suc (Suc (Suc (Suc (Suc (Suc (Suc (Suc
       (Suc 0))))))))))))))))) 1 (decimalExponent (numer m e) (denom e)) m e"

definition formatDecimal :: "int \<Rightarrow> int \<Rightarrow> string" where
  "formatDecimal s n =
     (let ds = showDigits s; k = int (length ds) in
      if k \<le> n \<and> n \<le> 21 then ds @ replicate (nat (n - k)) (CHR ''0'')
      else if 0 < n \<and> n \<le> 21 then take (nat n) ds @ ''.'' @ drop (nat n) ds
      else if - 6 < n \<and> n \<le> 0 then ''0.'' @ replicate (nat (- n)) (CHR ''0'') @ ds
      else (if k = 1 then ds else take 1 ds @ ''.'' @ drop 1 ds)
           @ ''e'' @ (if n - 1 < 0 then ''-'' else ''+'') @ showDigits \<bar>n - 1\<bar>)"

definition numberToString :: "number \<Rightarrow> string" where
  "numberToString x =
     (case x of
        NaN \<Rightarrow> ''NaN''
      | Infinity neg \<Rightarrow> (if neg then ''-Infinity'' else ''Infinity'')
      | Finite neg m e \<Rightarrow>
          (if m \<le> 0 then ''0''
           else (if neg then ''-'' else [])
                @ (case shortestDecimal m e of (s, n) \<Rightarrow> formatDecimal s n)))"

subsection \<open>toFixed\<close>

text \<open>
  \<^verbatim>\<open>x.toFixed(f)\<close>: a number that is not finite prints as \<^verbatim>\<open>toString\<close> does; a magnitude of
  \<open>10 ^ 21\<close> or more too; otherwise the integer \<open>n\<close> closest to \<open>x * 10 ^ f\<close> (the larger of
  two) is printed with \<open>f\<close> digits after the point. The sign is that of \<open>x < 0\<close>, so a
  negative number that rounds to zero keeps its minus, and negative zero has none.
\<close>

definition toFixed :: "number \<Rightarrow> nat \<Rightarrow> string" where
  "toFixed x f =
     (case x of
        NaN \<Rightarrow> ''NaN''
      | Infinity neg \<Rightarrow> (if neg then ''-Infinity'' else ''Infinity'')
      | Finite neg m e \<Rightarrow>
          (let s = (if neg \<and> 0 < m then ''-'' else []);
               p = numer m e; q = denom e
           in if 10 ^ 21 * q \<le> p then s @ numberToString (Finite False m e)
              else
                (let n = (2 * p * 10 ^ f + q) div (2 * q);
                     ds = showDigits n;
                     zs = (if length ds \<le> f then replicate (f + 1 - length ds) (CHR ''0'') @ ds
                           else ds);
                     k = length zs
                 in if f = 0 then s @ ds
                    else s @ take (k - f) zs @ ''.'' @ drop (k - f) zs)))"

subsection \<open>parseFloat\<close>

text \<open>
  \<^verbatim>\<open>parseFloat\<close> skips leading white space and reads the longest prefix that is a decimal
  literal: a sign, then \<^verbatim>\<open>Infinity\<close> or digits with an optional fraction and an optional
  exponent. No such prefix gives \<^verbatim>\<open>NaN\<close>. The value is rounded to the nearest double.
\<close>

definition isSpace :: "char \<Rightarrow> bool" where
  "isSpace c = (c = CHR '' '' \<or> c = CHR 0x09 \<or> c = CHR 0x0A \<or> c = CHR 0x0B \<or> c = CHR 0x0C
                \<or> c = CHR 0x0D)"

definition startsWith :: "string \<Rightarrow> string \<Rightarrow> bool" where
  "startsWith s pre = (take (length pre) s = pre)"

text \<open>The exponent part at the head of a string, 0 when there is none.\<close>

definition exponentPart :: "string \<Rightarrow> int" where
  "exponentPart s =
     (if startsWith s ''e'' \<or> startsWith s ''E'' then
        (let r = drop 1 s;
             neg = startsWith r ''-'';
             r' = (if startsWith r ''-'' \<or> startsWith r ''+'' then drop 1 r else r);
             ds = takeWhile isDigit r'
         in if ds = [] then 0 else (if neg then - readDigits ds else readDigits ds))
      else 0)"

definition parseFloat :: "string \<Rightarrow> number" where
  "parseFloat str =
     (let s0 = dropWhile isSpace str;
          neg = startsWith s0 ''-'';
          s1 = (if startsWith s0 ''-'' \<or> startsWith s0 ''+'' then drop 1 s0 else s0)
      in if startsWith s1 ''Infinity'' then Infinity neg
         else
           (let ip = takeWhile isDigit s1;
                s2 = dropWhile isDigit s1;
                fp = (if startsWith s2 ''.'' then takeWhile isDigit (drop 1 s2) else []);
                s3 = (if startsWith s2 ''.'' then dropWhile isDigit (drop 1 s2) else s2);
                ex = exponentPart s3 - int (length fp);
                d = readDigits (ip @ fp)
            in if ip = [] \<and> fp = [] then NaN
               else if d = 0 then Finite neg 0 0
               else if 0 \<le> ex then roundToDouble neg (d * 10 ^ nat ex) 1
               else roundToDouble neg d (10 ^ nat (- ex))))"

section \<open>The formatter's data\<close>

text \<open>
  Modelled from the spec: \<^verbatim>\<open>DataType\<close> is declared in \<^verbatim>\<open>./types\<close>, which is not among the
  sources. The specification's element type tag has ``one distinguished variant
  (complex)'' whose elements are stored as pairs, while ``every other variant stores one
  value per logical element''. The formatter compares the tag with \<^verbatim>\<open>'complex64'\<close> and
  prints it in the verbose header, so a real kind is given by its name.
\<close>

datatype DataType = Complex64 | Real string

definition dtypeName :: "DataType \<Rightarrow> string" where
  "dtypeName dtype = (case dtype of Complex64 \<Rightarrow> ''complex64'' | Real name \<Rightarrow> name)"

text \<open>
  What a call can do other than return: throw (calling a method of \<^verbatim>\<open>undefined\<close> is a
  \<^verbatim>\<open>TypeError\<close>, an array length of \<open>2 ^ 32\<close> or more a \<^verbatim>\<open>RangeError\<close>), or loop for ever.
\<close>

datatype failure = TypeError | RangeError | NonTermination

text \<open>
  A value handed to \<^verbatim>\<open>valToString\<close>: a number, a pair \<^verbatim>\<open>[re, im]\<close> whose second entry is
  \<^verbatim>\<open>undefined\<close> when the buffer ended after the first, or \<^verbatim>\<open>undefined\<close>, which is what
  reading an array past its end gives.
\<close>

datatype jsval = Undefined | Num number | Tuple number "number option"

definition at :: "'a list \<Rightarrow> nat \<Rightarrow> 'a option" where
  "at xs i = (if i < length xs then Some (xs ! i) else None)"

definition element :: "jsval list \<Rightarrow> nat \<Rightarrow> jsval" where
  "element xs i = (if i < length xs then xs ! i else Undefined)"

text \<open>
  \<^verbatim>\<open>TypedArray.prototype.subarray(begin, end)\<close>: the entries from \<open>begin\<close> up to \<open>end\<close>, both
  clamped to the length; empty when \<open>end \<le> begin\<close>.
\<close>

definition subarray :: "'a list \<Rightarrow> nat \<Rightarrow> nat \<Rightarrow> 'a list" where
  "subarray vals start end = drop start (take end vals)"

text \<open>\<^verbatim>\<open>xs.map((x, i) => f(x, i))\<close> for an \<open>f\<close> that can throw, counting from \<open>i\<close>.\<close>

fun mapFrom :: "nat \<Rightarrow> ('a \<Rightarrow> nat \<Rightarrow> failure + 'b) \<Rightarrow> 'a list \<Rightarrow> failure + 'b list" where
  "mapFrom i f [] = Inr []"
| "mapFrom i f (x # xs) =
     (case f x i of
        Inl err \<Rightarrow> Inl err
      | Inr y \<Rightarrow> (case mapFrom (Suc i) f xs of Inl err \<Rightarrow> Inl err | Inr ys \<Rightarrow> Inr (y # ys)))"

text \<open>The lines pushed by a run of calls, in order, up to the first call that fails.\<close>

fun collectLines :: "(failure + string list) list \<Rightarrow> failure + string list" where
  "collectLines [] = Inr []"
| "collectLines (r # rs) =
     (case r of
        Inl err \<Rightarrow> Inl err
      | Inr ls \<Rightarrow> (case collectLines rs of Inl err \<Rightarrow> Inl err | Inr ls' \<Rightarrow> Inr (ls @ ls')))"

subsection \<open>Helpers of \<^verbatim>\<open>./util\<close>\<close>

text \<open>
  Modelled from the spec: \<^verbatim>\<open>computeStrides\<close> is imported from \<^verbatim>\<open>./util\<close>, which is not among
  the sources. The specification's stride calculator returns a ``stride vector, same
  length, where the last stride is 1 and each preceding stride is the product of all sizes
  to its right'', the empty vector for the empty shape.
\<close>

fun computeStrides :: "nat list \<Rightarrow> nat list" where
  "computeStrides [] = []"
| "computeStrides (d # ds) = prod_list ds # computeStrides ds"

text \<open>
  Modelled from the spec: \<^verbatim>\<open>sizeFromShape\<close> is imported from \<^verbatim>\<open>./util\<close>, which is not among
  the sources. The element count is ``the product of all shape dimensions''.
\<close>

definition sizeFromShape :: "nat list \<Rightarrow> nat" where
  "sizeFromShape shape = prod_list shape"

text \<open>
  Modelled from the spec: \<^verbatim>\<open>rightPad\<close> is imported from \<^verbatim>\<open>./util\<close>, which is not among the
  sources. It is to ``right-pad the result with trailing spaces to reach the requested
  width (no-op if the string is already that long or longer -- padding never truncates)''.
  The width is \<open>None\<close> where the caller read \<^verbatim>\<open>padPerCol\<close> past its end and passes
  \<^verbatim>\<open>undefined\<close>: no width is requested and the string is returned as it is.
\<close>

definition rightPad :: "string \<Rightarrow> nat option \<Rightarrow> string" where
  "rightPad a width =
     (case width of None \<Rightarrow> a | Some n \<Rightarrow> a @ replicate (n - length a) (CHR '' ''))"

section \<open>The formatter\<close>

abbreviation FORMAT_LIMIT_NUM_VALS :: nat where
  "FORMAT_LIMIT_NUM_VALS \<equiv> 20"

abbreviation FORMAT_NUM_FIRST_LAST_VALS :: nat where
  "FORMAT_NUM_FIRST_LAST_VALS \<equiv> 3"

abbreviation FORMAT_NUM_SIG_DIGITS :: nat where
  "FORMAT_NUM_SIG_DIGITS \<equiv> 7"

subsection \<open>\<^verbatim>\<open>createComplexTuples\<close>\<close>

text \<open>
  Pairs of consecutive entries; the loop reads \<^verbatim>\<open>vals[i + 1]\<close> without a check, so a
  buffer of odd length ends in a pair whose second entry is \<^verbatim>\<open>undefined\<close>.
\<close>

fun createComplexTuples :: "number list \<Rightarrow> jsval list" where
  "createComplexTuples [] = []"
| "createComplexTuples [re] = [Tuple re None]"
| "createComplexTuples (re # im # vals) = Tuple re (Some im) # createComplexTuples vals"

subsection \<open>\<^verbatim>\<open>valToString\<close>\<close>

definition valToString :: "jsval \<Rightarrow> nat option \<Rightarrow> failure + string" where
  "valToString val pad =
     (case val of
        Tuple re im \<Rightarrow>
          (case im of
             None \<Rightarrow> Inl TypeError
           | Some im' \<Rightarrow>
               Inr (rightPad
                 (numberToString (parseFloat (toFixed re FORMAT_NUM_SIG_DIGITS)) @ '' + '' @
                  numberToString (parseFloat (toFixed im' FORMAT_NUM_SIG_DIGITS)) @ ''j'') pad))
      | Num v \<Rightarrow>
          Inr (rightPad (numberToString (parseFloat (toFixed v FORMAT_NUM_SIG_DIGITS))) pad)
      | Undefined \<Rightarrow> Inl TypeError)"

subsection \<open>\<^verbatim>\<open>computeMaxSizePerColumn\<close>\<close>

text \<open>The inner loop over the columns \<open>j\<close> of one row.\<close>

function colLoop :: "jsval list \<Rightarrow> nat \<Rightarrow> nat \<Rightarrow> nat \<Rightarrow> nat list \<Rightarrow> failure + nat list" where
  "colLoop valuesOrTuples numCols offset j padPerCol =
     (if j < numCols then
        (case valToString (element valuesOrTuples (offset + j)) (Some 0) of
           Inl err \<Rightarrow> Inl err
         | Inr s \<Rightarrow>
             colLoop valuesOrTuples numCols offset (j + 1)
               (padPerCol[j := max (padPerCol ! j) (length s)]))
      else Inr padPerCol)"
  by pat_completeness auto
termination
  by (relation "measure (\<lambda>(vt, numCols, offset, j, padPerCol). numCols - j)") auto

declare colLoop.simps [simp del]

text \<open>
  The outer loop runs while \<^verbatim>\<open>row < n / numCols\<close>. The division is that of doubles: with
  \<open>numCols = 0\<close> it is \<^verbatim>\<open>NaN\<close> for \<open>n = 0\<close>, and the loop is not entered, and \<^verbatim>\<open>Infinity\<close>
  otherwise, and the loop (whose body then does nothing) never ends.
\<close>

function rowLoop :: "jsval list \<Rightarrow> nat \<Rightarrow> nat \<Rightarrow> nat \<Rightarrow> nat list \<Rightarrow> failure + nat list" where
  "rowLoop valuesOrTuples n numCols row padPerCol =
     (if numCols = 0 then (if n = 0 then Inr padPerCol else Inl NonTermination)
      else if row * numCols < n then
        (case colLoop valuesOrTuples numCols (row * numCols) 0 padPerCol of
           Inl err \<Rightarrow> Inl err
         | Inr padPerCol' \<Rightarrow> rowLoop valuesOrTuples n numCols (row + 1) padPerCol')
      else Inr padPerCol)"
  by pat_completeness auto
termination
  by (relation "measure (\<lambda>(vt, n, numCols, row, padPerCol). n - row * numCols)") auto

declare rowLoop.simps [simp del]

text \<open>
  \<^verbatim>\<open>strides[strides.length - 1]\<close> is \<^verbatim>\<open>undefined\<close> for an empty stride vector; then
  \<^verbatim>\<open>new Array(undefined)\<close> is the one-entry array and the loop condition compares with
  \<^verbatim>\<open>NaN\<close>.
\<close>

definition computeMaxSizePerColumn ::
  "number list \<Rightarrow> nat list \<Rightarrow> DataType \<Rightarrow> nat list \<Rightarrow> failure + nat list" where
  "computeMaxSizePerColumn vals shape dtype strides =
     (let n = sizeFromShape shape in
      case at strides (length strides - 1) of
        None \<Rightarrow> Inr [0]
      | Some numCols \<Rightarrow>
          if 2 ^ 32 \<le> int numCols then Inl RangeError
          else
            (let padPerCol = replicate numCols 0;
                 rank = length shape;
                 valuesOrTuples =
                   (if dtype = Complex64 then createComplexTuples vals else map Num vals)
             in if 1 < rank then rowLoop valuesOrTuples n numCols 0 padPerCol
                else Inr padPerCol))"

subsection \<open>\<^verbatim>\<open>subTensorToString\<close>\<close>

text \<open>
  Lines 157 to 168: the brackets around the lines of the sub-tensors. The three
  assignments are made one after the other on the same array, so a single line gets
  both the opening and the closing decoration. With no line at all (an outermost
  dimension of size 0) \<^verbatim>\<open>lines[0]\<close> is \<^verbatim>\<open>undefined\<close>, which the concatenation prints as
  the word, and the assignment appends the entry.
\<close>

definition closeLines :: "nat \<Rightarrow> bool \<Rightarrow> string list \<Rightarrow> string list" where
  "closeLines rank isLast lines =
     (let sep = (if rank = 2 then '','' else []);
          lines1 = (case lines of
                      [] \<Rightarrow> [''[undefined'' @ sep]
                    | l # ls \<Rightarrow> (''['' @ l @ sep) # ls);
          lines2 = foldl (\<lambda>ls i. ls[i := '' '' @ ls ! i @ sep]) lines1 [1..<length lines1 - 1];
          newLineSep = '','' @ [newline] @ replicate (rank - 2) newline;
          k = length lines2 - 1
      in lines2[k := '' '' @ lines2 ! k @ '']'' @ (if isLast then [] else newLineSep)])"

text \<open>
  The recursion is on the shape. \<open>sz\<close> is the source's \<^verbatim>\<open>size\<close>, the outermost dimension.
  With an empty stride vector \<^verbatim>\<open>strides[0]\<close> is \<^verbatim>\<open>undefined\<close> and the offsets are \<^verbatim>\<open>NaN\<close>,
  which \<^verbatim>\<open>subarray\<close> reads as 0: every sub-tensor gets the empty view.
\<close>

fun subTensorToString ::
  "number list \<Rightarrow> nat list \<Rightarrow> DataType \<Rightarrow> nat list \<Rightarrow> nat list \<Rightarrow> bool \<Rightarrow> failure + string list"
where
  "subTensorToString vals [] dtype strides padPerCol isLast =
     (if dtype = Complex64 then
        (case valToString (element (createComplexTuples vals) 0) (Some 0) of
           Inl err \<Rightarrow> Inl err
         | Inr s \<Rightarrow> Inr [s])
      else
        (case vals of
           [] \<Rightarrow> Inl TypeError
         | v # _ \<Rightarrow> Inr [numberToString v]))"
| "subTensorToString vals [sz] dtype strides padPerCol isLast =
     (let storagePerElement = (if dtype = Complex64 then 2 else 1) in
      if FORMAT_LIMIT_NUM_VALS < sz then
        (let firstValsSize = FORMAT_NUM_FIRST_LAST_VALS * storagePerElement;
             firstVals = subarray vals 0 firstValsSize;
             lastVals = subarray vals (sz - FORMAT_NUM_FIRST_LAST_VALS * storagePerElement) sz;
             firstVals' = (if dtype = Complex64 then createComplexTuples firstVals
                           else map Num firstVals);
             lastVals' = (if dtype = Complex64 then createComplexTuples lastVals
                          else map Num lastVals)
         in case mapFrom 0 (\<lambda>x i. valToString x (at padPerCol i)) firstVals' of
              Inl err \<Rightarrow> Inl err
            | Inr fs \<Rightarrow>
                (case mapFrom 0
                        (\<lambda>x i. valToString x (at padPerCol (sz - FORMAT_NUM_FIRST_LAST_VALS + i)))
                        lastVals' of
                   Inl err \<Rightarrow> Inl err
                 | Inr ls \<Rightarrow> Inr [''['' @ join '', '' fs @ '', ..., '' @ join '', '' ls @ '']'']))
      else
        (let displayVals = (if dtype = Complex64 then createComplexTuples vals else map Num vals)
         in case mapFrom 0 (\<lambda>x i. valToString x (at padPerCol i)) displayVals of
              Inl err \<Rightarrow> Inl err
            | Inr ds \<Rightarrow> Inr [''['' @ join '', '' ds @ '']'']))"
| "subTensorToString vals (sz # d # ds) dtype strides padPerCol isLast =
     (let storagePerElement = (if dtype = Complex64 then 2 else 1);
          rank = length (sz # d # ds);
          subshape = d # ds;
          substrides = drop 1 strides;
          stride = (case strides of [] \<Rightarrow> 0 | s # _ \<Rightarrow> s * storagePerElement)
      in case
           (if FORMAT_LIMIT_NUM_VALS < sz then
              collectLines
                (map (\<lambda>i. subTensorToString (subarray vals (i * stride) (i * stride + stride))
                             (d # ds) dtype substrides padPerCol False)
                   [0..<FORMAT_NUM_FIRST_LAST_VALS]
                 @ [Inr [''...'']]
                 @ map (\<lambda>i. subTensorToString (subarray vals (i * stride) (i * stride + stride))
                               (d # ds) dtype substrides padPerCol (i = sz - 1))
                     [sz - FORMAT_NUM_FIRST_LAST_VALS..<sz])
            else
              collectLines
                (map (\<lambda>i. subTensorToString (subarray vals (i * stride) (i * stride + stride))
                             (d # ds) dtype substrides padPerCol (i = sz - 1))
                   [0..<sz]))
         of
           Inl err \<Rightarrow> Inl err
         | Inr lines \<Rightarrow> Inr (closeLines rank isLast lines))"

subsection \<open>\<^verbatim>\<open>tensorToString\<close>\<close>

definition showNat :: "nat \<Rightarrow> string" where
  "showNat n = showDigits (int n)"

definition tensorToString :: "number list \<Rightarrow> nat list \<Rightarrow> DataType \<Rightarrow> bool \<Rightarrow> failure + string" where
  "tensorToString vals shape dtype verbose =
     (let strides = computeStrides shape in
      case computeMaxSizePerColumn vals shape dtype strides of
        Inl err \<Rightarrow> Inl err
      | Inr padPerCol \<Rightarrow>
          (let rank = length shape in
           case subTensorToString vals shape dtype strides padPerCol True of
             Inl err \<Rightarrow> Inl err
           | Inr valsLines \<Rightarrow>
               (let lines =
                      [''Tensor'']
                      @ (if verbose then
                           [''  dtype: '' @ dtypeName dtype,
                            ''  rank: '' @ showNat rank,
                            ''  shape: ['' @ join '','' (map showNat shape) @ '']'',
                            ''  values:'']
                         else [])
                      @ [join [newline] (map (\<lambda>l. ''    '' @ l) valsLines)]
                in Inr (join [newline] lines))))"

section \<open>Notions used in the statements\<close>

text \<open>
  The specification's description of the final output, word for word: the header line,
  ``if verbose, additional lines for dtype, rank, and shape (each prefixed two spaces);
  then the value block with every line indented by four spaces'', the lines joined by
  newlines and no other line. It is compared with \<^const>\<open>tensorToString\<close> below.
\<close>

definition describedLayout :: "DataType \<Rightarrow> nat list \<Rightarrow> bool \<Rightarrow> string list \<Rightarrow> string" where
  "describedLayout dtype shape verbose valsLines =
     join [newline]
       ([''Tensor'']
        @ (if verbose then
             [''  dtype: '' @ dtypeName dtype,
              ''  rank: '' @ showNat (length shape),
              ''  shape: ['' @ join '','' (map showNat shape) @ '']'']
           else [])
        @ map (\<lambda>l. ''    '' @ l) valsLines)"

text \<open>
  The unpadded rendering of a number by \<^const>\<open>valToString\<close>, and the cell that the rank-1
  branch shows for the entry \<open>i\<close> of a real buffer, padded to the width of column \<open>i\<close>.
\<close>

definition renderNumber :: "number \<Rightarrow> string" where
  "renderNumber v = numberToString (parseFloat (toFixed v FORMAT_NUM_SIG_DIGITS))"

definition renderedCell :: "number list \<Rightarrow> nat list \<Rightarrow> nat \<Rightarrow> string" where
  "renderedCell vals padPerCol i = rightPad (renderNumber (vals ! i)) (at padPerCol i)"

text \<open>
  The indices of the sub-tensors that the rank \<open>\<ge> 2\<close> branch renders, in the order of its
  loops: all of them up to 20, otherwise the first three and the last three.
\<close>

definition shownSiblings :: "nat \<Rightarrow> nat list" where
  "shownSiblings sz =
     (if FORMAT_LIMIT_NUM_VALS < sz
      then [0..<FORMAT_NUM_FIRST_LAST_VALS] @ [sz - FORMAT_NUM_FIRST_LAST_VALS..<sz]
      else [0..<sz])"

text \<open>
  The separator after a sub-tensor of rank \<open>r\<close> that is not the last sibling, in the
  specification's words: ``a comma plus one newline per nesting level beyond the second''.
  It is compared with the code's separator below.
\<close>

definition describedSeparator :: "nat \<Rightarrow> string" where
  "describedSeparator r = '','' @ replicate (r - 2) newline"

section \<open>Auxiliary facts\<close>

lemma indent_fun: "(@) ''    '' = (\<lambda>l. CHR '' '' # CHR '' '' # CHR '' '' # CHR '' '' # l)"
  by (rule ext) simp

lemma length_foldl_update:
  "length (foldl (\<lambda>ls i. ls[i := f ls i]) xs js) = length xs"
  by (induction js arbitrary: xs) simp_all

lemma length_closeLines: "length (closeLines rank isLast lines) = max 1 (length lines)"
  by (cases lines) (simp_all add: closeLines_def Let_def length_foldl_update)

text \<open>
  Whatever the lines of the sub-tensors are, the last line that \<^const>\<open>closeLines\<close> returns
  ends with the closing bracket and, for a sibling that is not the last, the separator.
\<close>

lemma last_closeLines:
  "\<exists>body. last (closeLines rank isLast lines) =
     body @ '']'' @ (if isLast then [] else '','' @ replicate (Suc (rank - 2)) newline)"
proof -
  define sep where "sep = (if rank = 2 then '','' else [])"
  define lines1 where
    "lines1 = (case lines of [] \<Rightarrow> [''[undefined'' @ sep] | l # ls \<Rightarrow> (''['' @ l @ sep) # ls)"
  define lines2 where
    "lines2 = foldl (\<lambda>ls i. ls[i := '' '' @ ls ! i @ sep]) lines1 [1..<length lines1 - 1]"
  have "length lines1 = max 1 (length lines)"
    by (simp add: lines1_def split: list.splits)
  then have "length lines2 = max 1 (length lines)"
    unfolding lines2_def by (simp only: length_foldl_update)
  then have ne: "lines2 \<noteq> []" by auto
  have "closeLines rank isLast lines =
      lines2[length lines2 - 1 := '' '' @ lines2 ! (length lines2 - 1) @ '']''
         @ (if isLast then [] else '','' @ [newline] @ replicate (rank - 2) newline)]"
    unfolding closeLines_def Let_def lines2_def lines1_def sep_def ..
  then have "last (closeLines rank isLast lines) = '' '' @ lines2 ! (length lines2 - 1) @ '']''
         @ (if isLast then [] else '','' @ [newline] @ replicate (rank - 2) newline)"
    using ne by (simp add: last_list_update)
  then show ?thesis
    by (intro exI [of _ "'' '' @ lines2 ! (length lines2 - 1)"]) simp
qed

lemma valToString_Num: "valToString (Num v) pad = Inr (rightPad (renderNumber v) pad)"
  by (simp add: valToString_def renderNumber_def)

lemma rightPad_0: "rightPad s (Some 0) = s"
  by (simp add: rightPad_def)

lemma length_rightPad: "length (rightPad s (Some w)) = max (length s) w"
  by (simp add: rightPad_def)

lemma mapFrom_Num:
  "mapFrom k (\<lambda>x i. valToString x (g i)) (map Num xs) =
     Inr (map (\<lambda>j. rightPad (renderNumber (xs ! j)) (g (k + j))) [0..<length xs])"
proof (induction xs arbitrary: k)
  case Nil
  show ?case by simp
next
  case (Cons x xs)
  show ?case
    by (simp add: Cons.IH valToString_Num map_upt_Suc del: upt_Suc)
qed

lemma join_append:
  "xs \<noteq> [] \<Longrightarrow> ys \<noteq> [] \<Longrightarrow> join s (xs @ ys) = join s xs @ s @ join s ys"
proof (induction s xs rule: join.induct)
  case (1 sep)
  then show ?case by simp
next
  case (2 sep x)
  then show ?case by (cases ys) simp_all
next
  case (3 sep x y ys')
  then show ?case by simp
qed

lemma collectLines_Inl: "collectLines rs = Inl e \<Longrightarrow> Inl e \<in> set rs"
  by (induction rs) (auto split: sum.splits)

lemma collectLines_Inr:
  "collectLines rs = Inr ls \<Longrightarrow> \<exists>blocks. rs = map Inr blocks \<and> ls = concat blocks"
proof (induction rs arbitrary: ls)
  case Nil
  then show ?case by simp
next
  case (Cons r rs)
  from Cons.prems obtain b ls' where r: "r = Inr b" and rest: "collectLines rs = Inr ls'"
    and ls: "ls = b @ ls'"
    by (auto split: sum.splits)
  from Cons.IH [OF rest] obtain blocks where "rs = map Inr blocks" "ls' = concat blocks"
    by blast
  with r ls have "r # rs = map Inr (b # blocks) \<and> ls = concat (b # blocks)" by simp
  then show ?case by (rule exI)
qed

text \<open>
  The last line of a rendering of rank 2 or more, by the flag it was rendered with.
\<close>

lemma last_line_of_block:
  assumes "subTensorToString vals (sz # d # ds) dtype strides padPerCol isLast = Inr lines"
  shows "lines \<noteq> [] \<and>
    (\<exists>body. last lines =
       body @ '']'' @ (if isLast then [] else '','' @ replicate (Suc (length ds)) newline))"
proof -
  from assms obtain ls where eq: "lines = closeLines (length (sz # d # ds)) isLast ls"
    by (auto simp: Let_def split: sum.splits)
  have "length lines = max 1 (length ls)"
    unfolding eq by (rule length_closeLines)
  then have "lines \<noteq> []" by auto
  moreover have "\<exists>body. last lines =
       body @ '']'' @ (if isLast then [] else '','' @ replicate (Suc (length ds)) newline)"
    using last_closeLines [of "length (sz # d # ds)" isLast ls] unfolding eq
    by (cases isLast) simp_all
  ultimately show ?thesis by simp
qed

subsection \<open>Real dtypes: the rank-1 branch\<close>

text \<open>
  For a dtype that is not complex the rank-1 branch shows every element of a buffer of
  at most 20 entries, and the first three and the last three around one ellipsis of a
  longer one, each padded to the width of its own column.
\<close>

lemma vector_rendering_real:
  assumes "dtype \<noteq> Complex64" and "length vals = n"
  shows "subTensorToString vals [n] dtype strides padPerCol isLast =
     Inr [''['' @ join '', ''
            (if n \<le> FORMAT_LIMIT_NUM_VALS then map (renderedCell vals padPerCol) [0..<n]
             else map (renderedCell vals padPerCol) [0, 1, 2] @ [''...'']
                  @ map (renderedCell vals padPerCol) [n - 3, n - 2, n - 1])
          @ '']'']"
proof (cases "n \<le> FORMAT_LIMIT_NUM_VALS")
  case True
  have "mapFrom 0 (\<lambda>x i. valToString x (at padPerCol i)) (map Num vals) =
      Inr (map (renderedCell vals padPerCol) [0..<n])"
    using assms(2) by (simp add: mapFrom_Num renderedCell_def cong: map_cong)
  with True assms(1) show ?thesis by simp
next
  case False
  define m where "m = n - 3"
  have m: "n = m + 3" and big: "20 < n"
    using False by (simp_all add: m_def)
  have idx: "n - 3 = m" "n - 2 = Suc m" "n - 1 = Suc (Suc m)"
    using m by simp_all
  have first: "subarray vals 0 3 = [vals ! 0, vals ! 1, vals ! 2]"
    using big assms(2)
    by (auto simp add: subarray_def list_eq_iff_nth_eq nth_Cons' less_Suc_eq eval_nat_numeral)
  have last: "subarray vals m n = [vals ! m, vals ! Suc m, vals ! Suc (Suc m)]"
  proof -
    have "drop m vals = vals ! m # drop (Suc m) vals"
      using Cons_nth_drop_Suc [of m vals] assms(2) m by simp
    also have "drop (Suc m) vals = vals ! Suc m # drop (Suc (Suc m)) vals"
      using Cons_nth_drop_Suc [of "Suc m" vals] assms(2) m by simp
    also have "drop (Suc (Suc m)) vals = vals ! Suc (Suc m) # drop (Suc (Suc (Suc m))) vals"
      using Cons_nth_drop_Suc [of "Suc (Suc m)" vals] assms(2) m by simp
    also have "drop (Suc (Suc (Suc m))) vals = []"
      using assms(2) m by simp
    finally show ?thesis
      using assms(2) by (simp add: subarray_def)
  qed
  have f: "mapFrom 0 (\<lambda>x i. valToString x (at padPerCol i)) (map Num (subarray vals 0 3)) =
      Inr (map (renderedCell vals padPerCol) [0, 1, 2])"
    unfolding first by (simp add: valToString_Num renderedCell_def numeral_2_eq_2)
  have l: "mapFrom 0 (\<lambda>x i. valToString x (at padPerCol (m + i)))
             (map Num (subarray vals m n)) =
      Inr (map (renderedCell vals padPerCol) [m, Suc m, Suc (Suc m)])"
    unfolding last by (simp add: valToString_Num renderedCell_def)
  show ?thesis
    using big assms(1) f l unfolding idx by (simp add: join_append idx)
qed

text \<open>For a dtype that is not complex, rendering a tensor of rank 1 or more never fails.\<close>

lemma real_rendering_returns:
  assumes "dtype \<noteq> Complex64" and "shape \<noteq> []"
  shows "\<exists>lines. subTensorToString vals shape dtype strides padPerCol isLast = Inr lines"
  using assms(2)
proof (induction shape arbitrary: vals strides isLast)
  case Nil
  then show ?case by simp
next
  case (Cons sz rest)
  show ?case
  proof (cases rest)
    case Nil
    show ?thesis
      unfolding Nil using assms(1) by (simp add: mapFrom_Num Let_def)
  next
    case (Cons d ds)
    have child: "subTensorToString v (d # ds) dtype s padPerCol b \<noteq> Inl e" for v s b e
      using Cons.IH [of v s b] Cons by auto
    show ?thesis
      unfolding Cons using assms(1)
      by (auto simp: Let_def child child [symmetric] split: sum.splits dest!: collectLines_Inl)
  qed
qed

subsection \<open>Real dtypes: the column widths\<close>

text \<open>
  The inner loop raises the widths of the columns from \<open>j\<close> on to the widths of one row,
  the outer loop does so for the rows from \<open>row\<close> on.
\<close>

lemma colLoop_real:
  assumes "off + c \<le> length vals" and "length pads = c"
  shows "colLoop (map Num vals) c off j pads =
     Inr (map (\<lambda>k. if j \<le> k then max (pads ! k) (length (renderNumber (vals ! (off + k))))
                    else pads ! k) [0..<c])"
  using assms(2)
proof (induction "c - j" arbitrary: j pads)
  case 0
  then have "map (\<lambda>k. if j \<le> k then max (pads ! k) (length (renderNumber (vals ! (off + k))))
                    else pads ! k) [0..<c] = map (\<lambda>k. pads ! k) [0..<length pads]"
    by simp
  also have "\<dots> = pads" by (rule map_nth)
  finally show ?case
    using 0 by (simp add: colLoop.simps [of _ c off j])
next
  case (Suc d)
  then have j: "j < c" and d: "d = c - (j + 1)" by simp_all
  define w where "w = length (renderNumber (vals ! (off + j)))"
  define pads' where "pads' = pads[j := max (pads ! j) w]"
  have len: "length pads' = c" using Suc.prems by (simp add: pads'_def)
  have el: "element (map Num vals) (off + j) = Num (vals ! (off + j))"
    using j assms(1) by (simp add: element_def)
  have step: "colLoop (map Num vals) c off j pads = colLoop (map Num vals) c off (j + 1) pads'"
    using j by (simp add: colLoop.simps [of _ c off j] el valToString_Num rightPad_0 pads'_def w_def)
  have "(if j + 1 \<le> k then max (pads' ! k) (length (renderNumber (vals ! (off + k))))
         else pads' ! k)
      = (if j \<le> k then max (pads ! k) (length (renderNumber (vals ! (off + k))))
         else pads ! k)" if "k < c" for k
  proof (cases "k = j")
    case True
    then show ?thesis using Suc.prems j by (simp add: pads'_def w_def)
  next
    case False
    then show ?thesis using Suc.prems j by (auto simp: pads'_def)
  qed
  then have "map (\<lambda>k. if j + 1 \<le> k then max (pads' ! k) (length (renderNumber (vals ! (off + k))))
                    else pads' ! k) [0..<c]
      = map (\<lambda>k. if j \<le> k then max (pads ! k) (length (renderNumber (vals ! (off + k))))
                    else pads ! k) [0..<c]"
    by simp
  with Suc.hyps(1) [OF d len] step show ?case by simp
qed

lemma Max_insert_max:
  "finite S \<Longrightarrow> Max (insert (max a b) S) = Max (insert (a::nat) (insert b S))"
  by (cases "S = {}") (simp_all add: max.assoc)

lemma rowLoop_real:
  assumes "0 < c" and "R * c \<le> length vals" and "length pads = c"
  shows "rowLoop (map Num vals) (R * c) c row pads =
     Inr (map (\<lambda>k. Max (insert (pads ! k)
                 ((\<lambda>r. length (renderNumber (vals ! (r * c + k)))) ` {row..<R}))) [0..<c])"
  using assms(3)
proof (induction "R - row" arbitrary: row pads)
  case 0
  then have "{row..<R} = {}" by simp
  then have "map (\<lambda>k. Max (insert (pads ! k)
                 ((\<lambda>r. length (renderNumber (vals ! (r * c + k)))) ` {row..<R}))) [0..<c]
      = map (\<lambda>k. pads ! k) [0..<length pads]"
    using 0 by simp
  also have "\<dots> = pads" by (rule map_nth)
  finally show ?case
    using 0 assms(1) by (simp add: rowLoop.simps [of _ "R * c" c row])
next
  case (Suc d)
  then have row: "row < R" and d: "d = R - (row + 1)" by simp_all
  define pads' where
    "pads' = map (\<lambda>k. max (pads ! k) (length (renderNumber (vals ! (row * c + k))))) [0..<c]"
  have len: "length pads' = c" by (simp add: pads'_def)
  have "(row + 1) * c \<le> R * c" using row by (intro mult_le_mono1) simp
  then have fits: "row * c + c \<le> length vals" using assms(2) by simp
  have cols: "colLoop (map Num vals) c (row * c) 0 pads = Inr pads'"
    using colLoop_real [OF fits Suc.prems, of 0] by (simp add: pads'_def)
  have lt: "row * c < R * c" using row assms(1) by simp
  have step: "rowLoop (map Num vals) (R * c) c row pads =
      rowLoop (map Num vals) (R * c) c (row + 1) pads'"
    using lt assms(1) cols by (simp add: rowLoop.simps [of _ "R * c" c row])
  have ins: "{row..<R} = insert row {row + 1..<R}" using row by auto
  have "map (\<lambda>k. Max (insert (pads' ! k)
                 ((\<lambda>r. length (renderNumber (vals ! (r * c + k)))) ` {row + 1..<R}))) [0..<c]
      = map (\<lambda>k. Max (insert (pads ! k)
                 ((\<lambda>r. length (renderNumber (vals ! (r * c + k)))) ` {row..<R}))) [0..<c]"
    unfolding ins by (simp add: pads'_def Max_insert_max)
  with Suc.hyps(1) [OF d len] step show ?case by simp
qed

text \<open>
  When the last stride is the number \<open>c\<close> of columns and the buffer holds \<open>R\<close> rows of
  them, \<^const>\<open>computeMaxSizePerColumn\<close> returns for every column the largest unpadded
  width of its \<open>R\<close> values, and a value of column \<open>j\<close> padded to that width is exactly
  that wide, in every row.
\<close>

lemma column_widths_real:
  assumes "dtype \<noteq> Complex64" and "1 < length shape"
    and "strides \<noteq> []" and "last strides = c" and "0 < c" and "int c < 2 ^ 32"
    and "sizeFromShape shape = R * c" and "R * c \<le> length vals"
  shows "computeMaxSizePerColumn vals shape dtype strides =
     Inr (map (\<lambda>k. Max (insert 0
                 ((\<lambda>r. length (renderNumber (vals ! (r * c + k)))) ` {0..<R}))) [0..<c])"
proof -
  have "at strides (length strides - 1) = Some c"
    using assms(3,4) by (simp add: at_def last_conv_nth)
  moreover have "rowLoop (map Num vals) (R * c) c 0 (replicate c 0) =
     Inr (map (\<lambda>k. Max (insert 0
                 ((\<lambda>r. length (renderNumber (vals ! (r * c + k)))) ` {0..<R}))) [0..<c])"
    using rowLoop_real [OF assms(5,8), of "replicate c 0" 0] by simp
  ultimately show ?thesis
    using assms(1,2,6,7) by (simp add: computeMaxSizePerColumn_def)
qed

lemma aligned_cells_real:
  assumes "dtype \<noteq> Complex64" and "1 < length shape"
    and "strides \<noteq> []" and "last strides = c" and "0 < c" and "int c < 2 ^ 32"
    and "sizeFromShape shape = R * c" and "R * c \<le> length vals"
  shows "\<exists>pads. computeMaxSizePerColumn vals shape dtype strides = Inr pads \<and> length pads = c \<and>
     (\<forall>r<R. \<forall>j<c. length (rightPad (renderNumber (vals ! (r * c + j))) (at pads j)) = pads ! j)"
proof -
  define pads where "pads = map (\<lambda>k. Max (insert 0
                 ((\<lambda>r. length (renderNumber (vals ! (r * c + k)))) ` {0..<R}))) [0..<c]"
  have "length (rightPad (renderNumber (vals ! (r * c + j))) (at pads j)) = pads ! j"
    if "r < R" "j < c" for r j
  proof -
    have "length (renderNumber (vals ! (r * c + j))) \<le> pads ! j"
      using that by (simp add: pads_def)
    moreover have "at pads j = Some (pads ! j)"
      using that by (simp add: at_def pads_def)
    ultimately show ?thesis by (simp add: length_rightPad)
  qed
  moreover have "length pads = c" by (simp add: pads_def)
  moreover have "computeMaxSizePerColumn vals shape dtype strides = Inr pads"
    unfolding pads_def using assms by (rule column_widths_real)
  ultimately show ?thesis by blast
qed

text \<open>
  The rank-2 branch hands the row \<open>r\<close> to the rank-1 branch as the view
  \<open>subarray vals (r * c) (r * c + c)\<close>, whose cells are those of
  \<^const>\<open>renderedCell\<close> (lemma \<open>vector_rendering_real\<close>): in every row the cell of column
  \<open>j\<close> is as wide as the column.
\<close>

lemma renderedCell_row:
  assumes "r * c + c \<le> length vals" and "j < c"
  shows "renderedCell (subarray vals (r * c) (r * c + c)) padPerCol j =
     rightPad (renderNumber (vals ! (r * c + j))) (at padPerCol j)"
  using assms by (simp add: renderedCell_def subarray_def)

lemma aligned_rows_real:
  assumes "dtype \<noteq> Complex64" and "1 < length shape"
    and "strides \<noteq> []" and "last strides = c" and "0 < c" and "int c < 2 ^ 32"
    and "sizeFromShape shape = R * c" and "R * c \<le> length vals"
  shows "\<exists>pads. computeMaxSizePerColumn vals shape dtype strides = Inr pads \<and> length pads = c \<and>
     (\<forall>r<R. \<forall>j<c.
        length (renderedCell (subarray vals (r * c) (r * c + c)) pads j) = pads ! j)"
proof -
  from aligned_cells_real [OF assms] obtain pads where
    pads: "computeMaxSizePerColumn vals shape dtype strides = Inr pads" "length pads = c"
    and cells: "\<And>r j. r < R \<Longrightarrow> j < c \<Longrightarrow>
        length (rightPad (renderNumber (vals ! (r * c + j))) (at pads j)) = pads ! j"
    by blast
  have "length (renderedCell (subarray vals (r * c) (r * c + c)) pads j) = pads ! j"
    if "r < R" "j < c" for r j
  proof -
    have "(r + 1) * c \<le> R * c" using that(1) by (intro mult_le_mono1) simp
    then have "r * c + c \<le> length vals" using assms(8) by simp
    then show ?thesis using that cells by (simp add: renderedCell_row)
  qed
  with pads show ?thesis by blast
qed

subsection \<open>Evaluations\<close>

lemma render_2x2_real:
  "tensorToString (map ofInt [1, 2, 3, 4]) [2, 2] (Real name) False =
     Inr (''Tensor'' @ [newline] @ ''    [[1, 2],'' @ [newline] @ ''     [3, 4]]'')"
  by code_simp

lemma pads_2x2:
  "computeMaxSizePerColumn (map ofInt [1, 2, 3, 4]) [2, 2] (Real ''float32'')
     (computeStrides [2, 2]) = Inr [1]"
  by code_simp

lemma lines_2x2:
  "subTensorToString (map ofInt [1, 2, 3, 4]) [2, 2] (Real ''float32'')
     (computeStrides [2, 2]) [1] True = Inr [''[[1, 2],'', '' [3, 4]]'']"
  by code_simp

text \<open>The same lines when the stride vector has no entry for the innermost dimension.\<close>

lemma lines_2x2_short_strides:
  "computeMaxSizePerColumn (map ofInt [1, 2, 3, 4]) [2, 2] (Real name) [2] = Inr [1, 1]
   \<and> subTensorToString (map ofInt [1, 2, 3, 4]) [2, 2] (Real name) [2] [1, 1] True =
       Inr [''[[1, 2],'', '' [3, 4]]'']"
  by (intro conjI; code_simp)

lemma block_2x2x2:
  "subTensorToString (map ofInt [1, 2, 3, 4, 5, 6, 7, 8]) [2, 2, 2] (Real ''float32'') [4, 2, 1]
     [1] True =
     Inr [''[[[1, 2],'', ''  [3, 4]],'' @ [newline], '' [[5, 6],'', ''  [7, 8]]]'']"
  by code_simp

lemma siblings_2x2x2:
  "subTensorToString (subarray (map ofInt [1, 2, 3, 4, 5, 6, 7, 8]) 0 4) [2, 2]
     (Real ''float32'') [2, 1] [1] False = Inr [''[[1, 2],'', '' [3, 4]],'' @ [newline]]"
  "subTensorToString (subarray (map ofInt [1, 2, 3, 4, 5, 6, 7, 8]) 4 8) [2, 2]
     (Real ''float32'') [2, 1] [1] True = Inr [''[[5, 6],'', '' [7, 8]]'']"
  "tensorToString (map ofInt [1, 2, 3, 4, 5, 6, 7, 8]) [2, 2, 2] (Real ''float32'') False =
     Inr (''Tensor'' @ [newline] @ ''    [[[1, 2],'' @ [newline] @ ''      [3, 4]],'' @ [newline]
          @ [newline] @ ''     [[5, 6],'' @ [newline] @ ''      [7, 8]]]'')"
  by code_simp+

lemma scalar_example:
  "numberToString (parseFloat ''0.123456789'') = ''0.123456789''"
  "valToString (Num (parseFloat ''0.123456789'')) (Some 0) = Inr ''0.1234568''"
  "tensorToString [parseFloat ''0.123456789''] [1] (Real ''float32'') False =
     Inr (''Tensor'' @ [newline] @ ''    [0.1234568]'')"
  by code_simp+

section \<open>The claims\<close>

text \<open>
  C1: for every dtype, complex included, the line of a rank-1 tensor lists every element
  and no ellipsis when there are at most 20 elements, and otherwise has exactly one
  \<^verbatim>\<open>...\<close> and exactly 6 elements, the first three and the last three logical elements.

  The code does not do this for \<^verbatim>\<open>complex64\<close>. The first three pairs are cut from the
  first \<open>3 * 2\<close> buffer entries, but the last three from \<^verbatim>\<open>vals.subarray(size - 3 * 2, size)\<close>,
  whose bounds count logical elements while the buffer holds two entries for each. For the
  21 pairs \<open>(0, 1), (2, 3), \<dots>, (40, 41)\<close> the line ends with the pairs cut from the
  entries 15 to 20, not with the last three elements, which are \<open>36 + 37j\<close>, \<open>38 + 39j\<close>
  and \<open>40 + 41j\<close>.
\<close>

theorem long_complex_vector_tail:
  "tensorToString (map ofInt [0..41]) [21] Complex64 False =
     Inr (''Tensor'' @ [newline]
          @ ''    [0 + 1j, 2 + 3j, 4 + 5j, ..., 15 + 16j, 17 + 18j, 19 + 20j]'')
   \<and> map (\<lambda>x. valToString x None) (drop 18 (createComplexTuples (map ofInt [0..41]))) =
       [Inr ''36 + 37j'', Inr ''38 + 39j'', Inr ''40 + 41j'']"
  by (intro conjI; code_simp)

text \<open>
  C2: the value renderer displays at most 7 significant digits and no redundant trailing
  zeros.

  \<^verbatim>\<open>FORMAT_NUM_SIG_DIGITS\<close> is documented as the ``number of significant digits to show'',
  but it is passed to \<^verbatim>\<open>toFixed\<close>, which keeps that many digits after the decimal point.
  The integer 123456789 is rendered with its nine digits, and 1234.5678912 with eleven.
  Trailing zeros are removed: 1 is rendered as \<^verbatim>\<open>"1"\<close>.
\<close>

theorem valToString_nine_digits:
  "valToString (Num (ofInt 123456789)) (Some 0) = Inr ''123456789''
   \<and> valToString (Num (parseFloat ''1234.5678912'')) (Some 0) = Inr ''1234.5678912''
   \<and> valToString (Num (ofInt 1)) (Some 0) = Inr ''1''"
  by (intro conjI; code_simp)

text \<open>
  C3: a (sub)tensor whose outermost dimension has size 0 is rendered as the empty bracket
  pair \<^verbatim>\<open>[]\<close>, at every rank.

  At rank 1 it is. At rank 2 or more no sub-tensor is rendered, the array of lines is
  empty, and the code decorates \<^verbatim>\<open>lines[0]\<close>, which is \<^verbatim>\<open>undefined\<close>: the only line is
  \<^verbatim>\<open>" [undefined,]"\<close> at rank 2 and \<^verbatim>\<open>" [undefined]"\<close> at a higher rank.
\<close>

theorem empty_outer_dimension:
  "subTensorToString vals (0 # d # ds) dtype strides padPerCol True =
     Inr ['' [undefined'' @ (if ds = [] then '','' else []) @ '']'']
   \<and> tensorToString [] [0, 2] (Real ''float32'') False =
       Inr (''Tensor'' @ [newline] @ ''     [undefined,]'')
   \<and> tensorToString [] [0] (Real ''float32'') False =
       Inr (''Tensor'' @ [newline] @ ''    []'')"
proof (intro conjI)
  show "subTensorToString vals (0 # d # ds) dtype strides padPerCol True =
     Inr ['' [undefined'' @ (if ds = [] then '','' else []) @ '']'']"
    by (simp add: closeLines_def)
  show "tensorToString [] [0, 2] (Real ''float32'') False =
     Inr (''Tensor'' @ [newline] @ ''     [undefined,]'')"
    by code_simp
  show "tensorToString [] [0] (Real ''float32'') False =
     Inr (''Tensor'' @ [newline] @ ''    []'')"
    by code_simp
qed

text \<open>
  C4: the output is the header line \<^verbatim>\<open>Tensor\<close>; exactly when verbose, lines for dtype,
  rank and shape, each prefixed with two spaces; then the value block, every line indented
  by four spaces; all joined by single newlines; no other line.

  As stated this fails: a verbose rendering has a fourth line, \<^verbatim>\<open>"  values:"\<close>, between the
  shape and the value block. For the scalar 5 the output differs from the described layout
  by that line.
\<close>

theorem values_line_counterexample:
  "tensorToString [ofInt 5] [] (Real ''float32'') True =
     Inr (''Tensor'' @ [newline] @ ''  dtype: float32'' @ [newline] @ ''  rank: 0'' @ [newline]
          @ ''  shape: []'' @ [newline] @ ''  values:'' @ [newline] @ ''    5'')
   \<and> subTensorToString [ofInt 5] [] (Real ''float32'') (computeStrides []) [0] True = Inr [''5'']
   \<and> describedLayout (Real ''float32'') [] True [''5''] =
       ''Tensor'' @ [newline] @ ''  dtype: float32'' @ [newline] @ ''  rank: 0'' @ [newline]
          @ ''  shape: []'' @ [newline] @ ''    5''
   \<and> tensorToString [ofInt 5] [] (Real ''float32'') True
       \<noteq> Inr (describedLayout (Real ''float32'') [] True [''5''])"
  by (intro conjI; code_simp)

text \<open>
  C4, amended: whenever the column widths and the lines of the value block are computed,
  the output is the header line \<^verbatim>\<open>Tensor\<close>; exactly when verbose, four lines prefixed with
  two spaces, for dtype, rank and shape and the label \<^verbatim>\<open>values:\<close>; then the lines of the
  value block, each prefixed with four spaces; all joined by single newlines, and nothing
  else.
\<close>

theorem tensorToString_layout:
  assumes "computeMaxSizePerColumn vals shape dtype (computeStrides shape) = Inr padPerCol"
    and "subTensorToString vals shape dtype (computeStrides shape) padPerCol True = Inr valsLines"
  shows "tensorToString vals shape dtype verbose =
     Inr (''Tensor'' @ [newline]
          @ (if verbose then
               ''  dtype: '' @ dtypeName dtype @ [newline]
               @ ''  rank: '' @ showNat (length shape) @ [newline]
               @ ''  shape: ['' @ join '','' (map showNat shape) @ '']'' @ [newline]
               @ ''  values:'' @ [newline]
             else [])
          @ join [newline] (map (\<lambda>l. ''    '' @ l) valsLines))"
  using assms by (simp add: tensorToString_def indent_fun)

theorem tensorToString_layout_witness:
  "computeMaxSizePerColumn (map ofInt [1, 2, 3, 4]) [2, 2] (Real ''float32'')
     (computeStrides [2, 2]) = Inr [1]
   \<and> subTensorToString (map ofInt [1, 2, 3, 4]) [2, 2] (Real ''float32'')
       (computeStrides [2, 2]) [1] True = Inr [''[[1, 2],'', '' [3, 4]]'']
   \<and> tensorToString (map ofInt [1, 2, 3, 4]) [2, 2] (Real ''float32'') True =
       Inr (''Tensor'' @ [newline] @ ''  dtype: float32'' @ [newline] @ ''  rank: 2'' @ [newline]
            @ ''  shape: [2,2]'' @ [newline] @ ''  values:'' @ [newline]
            @ ''    [[1, 2],'' @ [newline] @ ''     [3, 4]]'')"
proof -
  have "dtypeName (Real ''float32'') = ''float32''" "showNat (length [2::nat, 2]) = ''2''"
    "join '','' (map showNat [2, 2]) = ''2,2''"
    by code_simp+
  then show ?thesis
    using tensorToString_layout [OF pads_2x2 lines_2x2, of True] pads_2x2 lines_2x2 by simp
qed

text \<open>
  C5: in the rendering of a tensor of rank 2 or more, the values of one innermost column
  are rendered to strings of equal length in all rows.

  The defect of C1 breaks this for \<^verbatim>\<open>complex64\<close> rows of more than 20 elements. In a
  \<open>2 \<times> 22\<close> tensor that is zero but for the element 8 of the second row, which is 100, the
  fourth cell shown in each row is the element 8 of that row (the pair cut from the entries
  16 and 17 of the row's 44), padded to the width of another column: \<^verbatim>\<open>0 + 0j\<close> in the first
  row and \<^verbatim>\<open>100 + 0j\<close> in the second.

  The first conjunct is the whole rendering, with the stride vector \<open>[22, 1]\<close> of
  \<^const>\<open>computeStrides\<close>. The other two are the column widths and the lines for the stride
  vector \<open>[22]\<close>, without an entry for the innermost dimension, so that its last entry,
  the source's \<^verbatim>\<open>numCols\<close>, is the number of columns: then every column is measured, the
  column 8 is 8 wide and the others 6, and the two cells are still 6 and 8 wide. For real
  dtypes and such a stride vector the cells of a column are equally wide (lemma
  \<open>aligned_rows_real\<close>).
\<close>

theorem long_complex_rows_misaligned:
  "tensorToString (map ofInt (replicate 60 0 @ [100] @ replicate 27 0)) [2, 22] Complex64 False =
     Inr (''Tensor'' @ [newline]
          @ ''    [[0 + 0j  , 0 + 0j, 0 + 0j, ..., 0 + 0j, 0 + 0j, 0 + 0j],'' @ [newline]
          @ ''     [0 + 0j  , 0 + 0j, 0 + 0j, ..., 100 + 0j, 0 + 0j, 0 + 0j]]'')
   \<and> computeMaxSizePerColumn (map ofInt (replicate 60 0 @ [100] @ replicate 27 0)) [2, 22]
       Complex64 [22]
     = Inr (replicate 8 6 @ [8] @ replicate 13 6)
   \<and> subTensorToString (map ofInt (replicate 60 0 @ [100] @ replicate 27 0)) [2, 22] Complex64
        [22] (replicate 8 6 @ [8] @ replicate 13 6) True =
       Inr [''[[0 + 0j, 0 + 0j, 0 + 0j, ..., 0 + 0j, 0 + 0j, 0 + 0j],'',
            '' [0 + 0j, 0 + 0j, 0 + 0j, ..., 100 + 0j, 0 + 0j, 0 + 0j]]'']"
  by (intro conjI; code_simp)

text \<open>
  C6: the final line of a sub-tensor of rank \<open>r \<ge> 2\<close> rendered as a non-last sibling ends
  with \<^verbatim>\<open>]\<close> followed by a comma plus one newline per nesting level beyond the second; the
  final line of the last sibling ends with \<^verbatim>\<open>]\<close> and nothing else.

  As stated this fails: \<^verbatim>\<open>newLineSep\<close> starts as \<^verbatim>\<open>",\n"\<close> and gets one more newline for every
  dimension after the second, so a sub-tensor of rank 2 is already followed by a comma and
  one newline. In the tensor of shape \<open>[2, 2, 2]\<close> the first block of rank 2 is not the last
  sibling; its final line is \<^verbatim>\<open>" [3, 4]],\n"\<close>, which does not end with \<^verbatim>\<open>"],"\<close>, and the two
  blocks are a blank line apart.
\<close>

theorem separator_newline_counterexample:
  "tensorToString (map ofInt [1, 2, 3, 4, 5, 6, 7, 8]) [2, 2, 2] (Real ''float32'') False =
     Inr (''Tensor'' @ [newline] @ ''    [[[1, 2],'' @ [newline] @ ''      [3, 4]],'' @ [newline]
          @ [newline] @ ''     [[5, 6],'' @ [newline] @ ''      [7, 8]]]'')
   \<and> subTensorToString (subarray (map ofInt [1, 2, 3, 4, 5, 6, 7, 8]) 0 4) [2, 2]
       (Real ''float32'') [2, 1] [1] False = Inr [''[[1, 2],'', '' [3, 4]],'' @ [newline]]
   \<and> describedSeparator (length [2::nat, 2]) = '',''
   \<and> \<not> (\<exists>body. last [''[[1, 2],'', '' [3, 4]],'' @ [newline]] =
            body @ '']'' @ describedSeparator (length [2::nat, 2]))"
proof (intro conjI)
  show "tensorToString (map ofInt [1, 2, 3, 4, 5, 6, 7, 8]) [2, 2, 2] (Real ''float32'') False =
     Inr (''Tensor'' @ [newline] @ ''    [[[1, 2],'' @ [newline] @ ''      [3, 4]],'' @ [newline]
          @ [newline] @ ''     [[5, 6],'' @ [newline] @ ''      [7, 8]]]'')"
    by (rule siblings_2x2x2(3))
  show "subTensorToString (subarray (map ofInt [1, 2, 3, 4, 5, 6, 7, 8]) 0 4) [2, 2]
       (Real ''float32'') [2, 1] [1] False = Inr [''[[1, 2],'', '' [3, 4]],'' @ [newline]]"
    by (rule siblings_2x2x2(1))
  show "describedSeparator (length [2::nat, 2]) = '',''"
    by (simp add: describedSeparator_def)
  show "\<not> (\<exists>body. last [''[[1, 2],'', '' [3, 4]],'' @ [newline]] =
            body @ '']'' @ describedSeparator (length [2::nat, 2]))"
  proof
    assume "\<exists>body. last [''[[1, 2],'', '' [3, 4]],'' @ [newline]] =
            body @ '']'' @ describedSeparator (length [2::nat, 2])"
    then obtain body where "'' [3, 4]],'' @ [newline] = body @ '']'' @ '',''"
      by (auto simp: describedSeparator_def)
    then have "last ('' [3, 4]],'' @ [newline]) = last (body @ '']'' @ '','')"
      by (rule arg_cong)
    then show False by (simp add: newline_def)
  qed
qed

text \<open>
  C6, amended: the final line of a sub-tensor of rank \<open>r \<ge> 2\<close> rendered as a non-last sibling
  ends with \<^verbatim>\<open>]\<close> followed by a comma and \<open>r - 1\<close> newlines (one newline, and one more per
  nesting level of the sub-tensor beyond the second); the final line of the last sibling ends
  with \<^verbatim>\<open>]\<close> and nothing else.

  The statement is on the tensor of rank \<open>r + 1\<close> that holds the siblings, of shape
  \<open>sz # d # e # ds\<close> with \<open>r = length ds + 2\<close>. Its lines are the brackets of
  \<^const>\<open>closeLines\<close> around the blocks of the sub-tensors it shows (and the ellipsis line
  when it shows six of more than 20), the block of the sub-tensor \<open>i\<close> being rendered as
  last sibling exactly when \<open>i = sz - 1\<close>; every block ends as said.
\<close>

theorem sibling_block_separator:
  assumes render: "subTensorToString vals (sz # d # e # ds) dtype strides padPerCol isLast = Inr lines"
    and stride: "stride = (case strides of [] \<Rightarrow> 0
                          | s # _ \<Rightarrow> s * (if dtype = Complex64 then 2 else 1))"
  shows "\<exists>blocks.
     map (\<lambda>i. subTensorToString (subarray vals (i * stride) (i * stride + stride))
                 (d # e # ds) dtype (drop 1 strides) padPerCol (i = sz - 1))
       (shownSiblings sz) = map Inr blocks
     \<and> lines = closeLines (length (sz # d # e # ds)) isLast
         (if FORMAT_LIMIT_NUM_VALS < sz
          then concat (take 3 blocks) @ [''...''] @ concat (drop 3 blocks)
          else concat blocks)
     \<and> (\<forall>k<length blocks. blocks ! k \<noteq> [] \<and>
          (\<exists>body. last (blocks ! k) =
             body @ '']'' @ (if shownSiblings sz ! k = sz - 1 then []
                            else '','' @ replicate (Suc (length ds)) newline)))"
proof -
  define call where "call = (\<lambda>i. subTensorToString (subarray vals (i * stride) (i * stride + stride))
                 (d # e # ds) dtype (drop 1 strides) padPerCol (i = sz - 1))"
  define results where "results =
     (if FORMAT_LIMIT_NUM_VALS < sz
      then map call [0..<FORMAT_NUM_FIRST_LAST_VALS] @ [Inr [''...'']]
           @ map call [sz - FORMAT_NUM_FIRST_LAST_VALS..<sz]
      else map call [0..<sz])"
  have early: "call i = subTensorToString (subarray vals (i * stride) (i * stride + stride))
                 (d # e # ds) dtype (drop 1 strides) padPerCol False"
    if "i < 3" "20 < sz" for i
  proof -
    have "(i = sz - 1) = False" using that by auto
    then show ?thesis by (simp only: call_def)
  qed
  have first: "map (\<lambda>i. subTensorToString (subarray vals (i * stride) (i * stride + stride))
                 (d # e # ds) dtype (drop 1 strides) padPerCol False) [0..<3] = map call [0..<3]"
    if "20 < sz"
    using that early by (simp del: subTensorToString.simps)
  have unfolded: "subTensorToString vals (sz # d # e # ds) dtype strides padPerCol isLast =
      (case collectLines results of
         Inl err \<Rightarrow> Inl err
       | Inr ls \<Rightarrow> Inr (closeLines (length (sz # d # e # ds)) isLast ls))"
  proof (cases "20 < sz")
    case True
    then show ?thesis
      unfolding subTensorToString.simps(3) [of vals sz d "e # ds"] Let_def results_def
        stride [symmetric]
      by (simp only: first [OF True] call_def if_True)
  next
    case False
    then show ?thesis
      unfolding subTensorToString.simps(3) [of vals sz d "e # ds"] Let_def results_def
        stride [symmetric]
      by (simp only: call_def if_False)
  qed
  obtain ls where ls: "collectLines results = Inr ls"
    and lines: "lines = closeLines (length (sz # d # e # ds)) isLast ls"
    using render unfolding unfolded by (auto split: sum.splits)
  from collectLines_Inr [OF ls] obtain bl where bl: "results = map Inr bl" "ls = concat bl"
    by blast
  have "\<exists>blocks. map call (shownSiblings sz) = map Inr blocks \<and>
      ls = (if FORMAT_LIMIT_NUM_VALS < sz
          then concat (take 3 blocks) @ [''...''] @ concat (drop 3 blocks)
          else concat blocks)"
  proof (cases "FORMAT_LIMIT_NUM_VALS < sz")
    case False
    with bl show ?thesis by (auto simp: results_def shownSiblings_def)
  next
    case True
    with bl(1) obtain us ws where parts: "bl = us @ [''...''] # ws"
      "map call [0..<3] = map Inr us" "map call [sz - 3..<sz] = map Inr ws"
      by (auto simp: results_def append_eq_map_conv Cons_eq_map_conv)
    from parts(2) have "length us = 3"
      by (metis length_map length_upt diff_zero)
    then have split: "take 3 (us @ ws) = us" "drop 3 (us @ ws) = ws"
      by simp_all
    have "map call (shownSiblings sz) = map Inr (us @ ws)"
      using parts(2,3) True by (simp add: shownSiblings_def)
    moreover have "ls = (if FORMAT_LIMIT_NUM_VALS < sz
          then concat (take 3 (us @ ws)) @ [''...''] @ concat (drop 3 (us @ ws))
          else concat (us @ ws))"
      unfolding split using parts(1) bl(2) True by simp
    ultimately show ?thesis by blast
  qed
  then obtain blocks where blocks: "map call (shownSiblings sz) = map Inr blocks"
    and cat: "ls = (if FORMAT_LIMIT_NUM_VALS < sz
          then concat (take 3 blocks) @ [''...''] @ concat (drop 3 blocks)
          else concat blocks)"
    by blast
  have "blocks ! k \<noteq> [] \<and>
          (\<exists>body. last (blocks ! k) =
             body @ '']'' @ (if shownSiblings sz ! k = sz - 1 then []
                            else '','' @ replicate (Suc (length ds)) newline))"
    if "k < length blocks" for k
  proof -
    have len: "length (shownSiblings sz) = length blocks"
      using blocks by (metis length_map)
    have "map call (shownSiblings sz) ! k = map Inr blocks ! k"
      using blocks by simp
    then have "call (shownSiblings sz ! k) = Inr (blocks ! k)"
      using that len by simp
    then show ?thesis
      unfolding call_def by (rule last_line_of_block)
  qed
  with blocks cat lines show ?thesis
    unfolding call_def by blast
qed


theorem sibling_block_separator_witness:
  "subTensorToString (map ofInt [1, 2, 3, 4, 5, 6, 7, 8]) [2, 2, 2] (Real ''float32'') [4, 2, 1]
     [1] True =
     Inr [''[[[1, 2],'', ''  [3, 4]],'' @ [newline], '' [[5, 6],'', ''  [7, 8]]]'']
   \<and> (\<exists>blocks.
     map (\<lambda>i. subTensorToString
                 (subarray (map ofInt [1, 2, 3, 4, 5, 6, 7, 8]) (i * 4) (i * 4 + 4))
                 [2, 2] (Real ''float32'') (drop 1 [4, 2, 1]) [1] (i = 2 - 1))
       (shownSiblings 2) = map Inr blocks
     \<and> [''[[[1, 2],'', ''  [3, 4]],'' @ [newline], '' [[5, 6],'', ''  [7, 8]]]''] =
         closeLines (length [2::nat, 2, 2]) True
         (if FORMAT_LIMIT_NUM_VALS < 2
          then concat (take 3 blocks) @ [''...''] @ concat (drop 3 blocks)
          else concat blocks)
     \<and> (\<forall>k<length blocks. blocks ! k \<noteq> [] \<and>
          (\<exists>body. last (blocks ! k) =
             body @ '']'' @ (if shownSiblings 2 ! k = 2 - 1 then []
                            else '','' @ replicate (Suc (length ([]::nat list))) newline))))"
proof (rule conjI)
  show "subTensorToString (map ofInt [1, 2, 3, 4, 5, 6, 7, 8]) [2, 2, 2] (Real ''float32'')
     [4, 2, 1] [1] True =
     Inr [''[[[1, 2],'', ''  [3, 4]],'' @ [newline], '' [[5, 6],'', ''  [7, 8]]]'']"
    by (rule block_2x2x2)
next
  show "\<exists>blocks.
     map (\<lambda>i. subTensorToString
                 (subarray (map ofInt [1, 2, 3, 4, 5, 6, 7, 8]) (i * 4) (i * 4 + 4))
                 [2, 2] (Real ''float32'') (drop 1 [4, 2, 1]) [1] (i = 2 - 1))
       (shownSiblings 2) = map Inr blocks
     \<and> [''[[[1, 2],'', ''  [3, 4]],'' @ [newline], '' [[5, 6],'', ''  [7, 8]]]''] =
         closeLines (length [2::nat, 2, 2]) True
         (if FORMAT_LIMIT_NUM_VALS < 2
          then concat (take 3 blocks) @ [''...''] @ concat (drop 3 blocks)
          else concat blocks)
     \<and> (\<forall>k<length blocks. blocks ! k \<noteq> [] \<and>
          (\<exists>body. last (blocks ! k) =
             body @ '']'' @ (if shownSiblings 2 ! k = 2 - 1 then []
                            else '','' @ replicate (Suc (length ([]::nat list))) newline)))"
    by (rule sibling_block_separator [OF block_2x2x2]) simp
qed

text \<open>
  C7: a pair is rendered as \<^verbatim>\<open><real> + <imag>j\<close>, each part as the value renderer renders
  a scalar, so that a negative imaginary part keeps its sign after the plus: \<open>(3, - 4)\<close> is
  \<^verbatim>\<open>3 + -4j\<close>, and the complex tensor of shape \<open>[2]\<close> with buffer \<open>[1, 2, 3, 4]\<close> is
  \<^verbatim>\<open>[1 + 2j, 3 + 4j]\<close>.
\<close>

theorem valToString_pair:
  "(\<exists>r i. valToString (Num re) None = Inr r \<and> valToString (Num im) None = Inr i \<and>
      valToString (Tuple re (Some im)) pad = Inr (rightPad (r @ '' + '' @ i @ ''j'') pad))
   \<and> valToString (Tuple (ofInt 3) (Some (ofInt (- 4)))) (Some 0) = Inr ''3 + -4j''
   \<and> subTensorToString (map ofInt [1, 2, 3, 4]) [2] Complex64 strides [0] isLast =
       Inr [''[1 + 2j, 3 + 4j]'']
   \<and> tensorToString (map ofInt [1, 2, 3, 4]) [2] Complex64 False =
       Inr (''Tensor'' @ [newline] @ ''    [1 + 2j, 3 + 4j]'')"
proof (intro conjI)
  show "subTensorToString (map ofInt [1, 2, 3, 4]) [2] Complex64 strides [0] isLast =
       Inr [''[1 + 2j, 3 + 4j]'']"
    by code_simp
  show "\<exists>r i. valToString (Num re) None = Inr r \<and> valToString (Num im) None = Inr i \<and>
      valToString (Tuple re (Some im)) pad = Inr (rightPad (r @ '' + '' @ i @ ''j'') pad)"
    by (simp add: valToString_def rightPad_def)
  show "valToString (Tuple (ofInt 3) (Some (ofInt (- 4)))) (Some 0) = Inr ''3 + -4j''"
    by code_simp
  show "tensorToString (map ofInt [1, 2, 3, 4]) [2] Complex64 False =
       Inr (''Tensor'' @ [newline] @ ''    [1 + 2j, 3 + 4j]'')"
    by code_simp
qed

text \<open>
  C8: rendering shape \<open>[2, 2]\<close> with buffer \<open>[1, 2, 3, 4]\<close>, a real dtype and
  \<open>verbose = false\<close> returns exactly the string \<^verbatim>\<open>"Tensor\n    [[1, 2],\n     [3, 4]]"\<close>.
\<close>

theorem tensorToString_2x2:
  "dtype \<noteq> Complex64 \<Longrightarrow>
   tensorToString (map ofInt [1, 2, 3, 4]) [2, 2] dtype False =
     Inr (''Tensor'' @ [newline] @ ''    [[1, 2],'' @ [newline] @ ''     [3, 4]]'')"
  using render_2x2_real by (cases dtype) simp_all

theorem tensorToString_2x2_witness:
  "Real ''float32'' \<noteq> Complex64 \<and>
   tensorToString (map ofInt [1, 2, 3, 4]) [2, 2] (Real ''float32'') False =
     Inr (''Tensor'' @ [newline] @ ''    [[1, 2],'' @ [newline] @ ''     [3, 4]]'')"
  using tensorToString_2x2 [of "Real ''float32''"] by simp

text \<open>
  C9: for a dtype that is not complex, a rank-0 tensor is rendered as the plain
  \<^verbatim>\<open>toString\<close> of its buffer value, without the rounding of the value renderer: the scalar
  0.123456789 is shown with its nine digits, where the value renderer gives
  \<^verbatim>\<open>0.1234568\<close>.
\<close>

theorem scalar_raw_toString:
  "dtype \<noteq> Complex64 \<Longrightarrow>
   subTensorToString (v # vals) [] dtype strides padPerCol isLast = Inr [numberToString v]
   \<and> tensorToString (v # vals) [] dtype False =
       Inr (''Tensor'' @ [newline] @ ''    '' @ numberToString v)
   \<and> numberToString (parseFloat ''0.123456789'') = ''0.123456789''
   \<and> valToString (Num (parseFloat ''0.123456789'')) (Some 0) = Inr ''0.1234568''"
  using scalar_example(1,2)
  by (simp add: tensorToString_def computeMaxSizePerColumn_def at_def)

theorem scalar_raw_toString_witness:
  "Real ''float32'' \<noteq> Complex64
   \<and> subTensorToString [parseFloat ''0.123456789''] [] (Real ''float32'') [] [0] True =
       Inr [''0.123456789'']
   \<and> tensorToString [parseFloat ''0.123456789''] [] (Real ''float32'') False =
       Inr (''Tensor'' @ [newline] @ ''    0.123456789'')
   \<and> tensorToString [parseFloat ''0.123456789''] [1] (Real ''float32'') False =
       Inr (''Tensor'' @ [newline] @ ''    [0.1234568]'')"
  using scalar_raw_toString
      [of "Real ''float32''" "parseFloat ''0.123456789''" "[]" "[]" "[0]" True]
    scalar_example(3)
  by simp

text \<open>
  C10: the header line and the indented value block are the same for \<open>verbose = true\<close> and
  \<open>verbose = false\<close>; the flag only inserts the lines for dtype, rank, shape and
  \<^verbatim>\<open>values:\<close> between them. A rendering that fails, fails alike for both.
\<close>

theorem verbose_only_adds_header:
  "case tensorToString vals shape dtype False of
     Inl err \<Rightarrow> tensorToString vals shape dtype True = Inl err
   | Inr out \<Rightarrow>
       (\<exists>block. out = ''Tensor'' @ [newline] @ block \<and>
          tensorToString vals shape dtype True =
            Inr (''Tensor'' @ [newline]
                 @ ''  dtype: '' @ dtypeName dtype @ [newline]
                 @ ''  rank: '' @ showNat (length shape) @ [newline]
                 @ ''  shape: ['' @ join '','' (map showNat shape) @ '']'' @ [newline]
                 @ ''  values:'' @ [newline]
                 @ block))"
proof (cases "computeMaxSizePerColumn vals shape dtype (computeStrides shape)")
  case (Inl err)
  then show ?thesis by (simp add: tensorToString_def)
next
  case pads: (Inr padPerCol)
  show ?thesis
  proof (cases "subTensorToString vals shape dtype (computeStrides shape) padPerCol True")
    case (Inl err)
    with pads show ?thesis by (simp add: tensorToString_def)
  next
    case (Inr valsLines)
    with pads show ?thesis by (simp add: tensorToString_def)
  qed
qed

end
